theory Spec2Isabelle
  imports Complex_Main
begin

section \<open>JavaScript strings\<close>

text \<open>
  Strings are modelled as \<^typ>\<open>string\<close>, lists of characters, a character standing for
  the UTF-16 code unit of the same number: the strings of the model are the JavaScript
  strings over the code units below 256 (the Latin-1 range), which holds every literal
  of the source. The two search methods the code relies on are written out as the
  searches they perform: \<^verbatim>\<open>s.startsWith(p)\<close> compares \<open>p\<close> with the front of \<open>s\<close>, and
  \<^verbatim>\<open>s.includes(p)\<close> (\<open>str_includes\<close> here) tries \<open>startsWith\<close> at every position of
  \<open>s\<close>, the position after the last character included (so the empty string is included
  in every string). On this range \<^verbatim>\<open>toLowerCase\<close> works character by character: the
  letters \<open>A\<close> to \<open>Z\<close> (65 to 90) and the accented capitals 192 to 214 and 216 to 222 go
  to the letter 32 higher, every other character stays.
\<close>

fun startsWith :: "string \<Rightarrow> string \<Rightarrow> bool" where
  "startsWith s [] = True"
| "startsWith [] (p # ps) = False"
| "startsWith (c # cs) (p # ps) = (c = p \<and> startsWith cs ps)"

fun str_includes :: "string \<Rightarrow> string \<Rightarrow> bool" where
  "str_includes [] p = startsWith [] p"
| "str_includes (c # cs) p = (startsWith (c # cs) p \<or> str_includes cs p)"

definition toLowerChar :: "char \<Rightarrow> char" where
  "toLowerChar c =
     (let n = (of_char c :: nat)
      in if (65 \<le> n \<and> n \<le> 90) \<or> (192 \<le> n \<and> n \<le> 214) \<or> (216 \<le> n \<and> n \<le> 222)
         then char_of (n + 32) else c)"

definition toLowerCase :: "string \<Rightarrow> string" where
  "toLowerCase s = map toLowerChar s"

text \<open>\<^verbatim>\<open>x || ''\<close> for a value that is a string, \<^verbatim>\<open>null\<close> or \<^verbatim>\<open>undefined\<close>.\<close>

fun orEmpty :: "string option \<Rightarrow> string" where
  "orEmpty None = []"
| "orEmpty (Some s) = s"

text \<open>Truthiness of such a value: present and not the empty string.\<close>

fun truthy :: "string option \<Rightarrow> bool" where
  "truthy None = False"
| "truthy (Some s) = (s \<noteq> [])"

section \<open>The authentication middleware (authenticateSupabaseUser)\<close>

text \<open>
  The identity returned by \<^verbatim>\<open>supabaseClient.auth.getUser(token)\<close>: the subject id and
  the email, which the provider's type leaves optional.
\<close>

record user =
  user_id :: string
  user_email :: "string option"

text \<open>
  A row of \<^verbatim>\<open>client_configurations\<close>, with the three columns the middleware reads.
  A column is a string or \<^verbatim>\<open>null\<close>.
\<close>

record clientConfig =
  organization_id :: "string option"
  client_name :: "string option"
  client_type :: "string option"

text \<open>The object \<^verbatim>\<open>{ id, name, type }\<close> held in \<^verbatim>\<open>userOrganizationInfo\<close> and \<^verbatim>\<open>activeOrganization\<close>.\<close>

record organizationInfo =
  org_id :: "string option"
  org_name :: "string option"
  org_type :: "string option"

text \<open>An entry of the module-level map \<^verbatim>\<open>organizationSessions\<close>; the timestamp is in milliseconds.\<close>

record orgSession =
  session_activeOrganizationId :: string
  session_timestamp :: int

type_synonym organizationSessions = "string \<rightharpoonup> orgSession"

record OrganizationContext =
  userOrganizationId :: string
  userOrganizationName :: string
  activeOrganizationId :: string
  activeOrganizationName :: string
  isQIGAdmin :: bool
  canAccessOrganization :: "string \<Rightarrow> bool"

text \<open>The object stored in \<^verbatim>\<open>req.user\<close>.\<close>

record reqUser =
  req_user_id :: string
  req_user_email :: string
  req_user_organization :: "organizationInfo option"
  req_user_isQIG :: bool

text \<open>
  What the middleware reads from outside: whether the Supabase client can be built
  (\<^verbatim>\<open>getSupabaseClient\<close> throws without its environment variables), the verification of
  a token (\<open>None\<close> when the provider reports an error or no user), the query for the
  active configurations created by a subject (\<open>None\<close> when the query reports an error,
  otherwise the rows, \<^verbatim>\<open>null\<close> read as no rows), the \<^verbatim>\<open>.single()\<close> query for an
  organization id (\<open>None\<close> when it reports an error or no row), and \<^verbatim>\<open>Date.now()\<close>.
\<close>

record authWorld =
  supabaseConfigured :: bool
  getUser :: "string \<Rightarrow> user option"
  configsByCreator :: "string \<Rightarrow> clientConfig list option"
  configByOrganization :: "string \<Rightarrow> clientConfig option"
  dateNow :: int

datatype authOutcome =
  Respond nat string
| Next reqUser OrganizationContext

definition isQIG :: "string option \<Rightarrow> bool" where
  "isQIG email =
     (case email of
        None \<Rightarrow> False
      | Some e \<Rightarrow> e \<noteq> [] \<and> (str_includes e ''@qig.'' \<or> str_includes e ''@qualityimprovementgroup.''))"

definition sessionValidityMs :: int where
  "sessionValidityMs = 24 * 60 * 60 * 1000"

definition infoOfConfig :: "clientConfig \<Rightarrow> organizationInfo" where
  "infoOfConfig config =
     \<lparr>org_id = organization_id config, org_name = client_name config,
      org_type = client_type config\<rparr>"

text \<open>Lines 501-530: the home organization (\<^verbatim>\<open>userOrganizationInfo\<close>).\<close>

definition userOrganizationInfo :: "authWorld \<Rightarrow> user \<Rightarrow> organizationInfo option" where
  "userOrganizationInfo w u =
     (if isQIG (user_email u) then
        Some \<lparr>org_id = Some ''qig-org'', org_name = Some ''QIG'', org_type = Some ''enterprise''\<rparr>
      else
        (case configsByCreator w (user_id u) of
           None \<Rightarrow> None
         | Some [] \<Rightarrow> None
         | Some (config # _) \<Rightarrow> Some (infoOfConfig config)))"

text \<open>
  Lines 532-566: the active organization, with the session map before and after.
  The map is read only under \<^verbatim>\<open>isQIG && userOrganizationInfo\<close>.
\<close>

definition activeOrganization ::
  "authWorld \<Rightarrow> organizationSessions \<Rightarrow> user \<Rightarrow> organizationInfo option \<times> organizationSessions" where
  "activeOrganization w store u =
     (let home = userOrganizationInfo w u in
      if isQIG (user_email u) \<and> home \<noteq> None then
        (case store (user_id u) of
           None \<Rightarrow> (home, store)
         | Some orgSession \<Rightarrow>
             if dateNow w - session_timestamp orgSession < sessionValidityMs then
               (case configByOrganization w (session_activeOrganizationId orgSession) of
                  Some switchedOrg \<Rightarrow> (Some (infoOfConfig switchedOrg), store)
                | None \<Rightarrow> (home, store))
             else (home, store(user_id u := None)))
      else (home, store))"

text \<open>
  Lines 569-578. \<^verbatim>\<open>userOrganizationInfo?.id || ''\<close> is the empty string when there is
  no home organization; the closure compares its argument with
  \<^verbatim>\<open>userOrganizationInfo?.id\<close> itself, which is \<^verbatim>\<open>undefined\<close> then and equal to no string.
\<close>

definition organizationContext ::
  "bool \<Rightarrow> organizationInfo option \<Rightarrow> organizationInfo option \<Rightarrow> OrganizationContext" where
  "organizationContext q home active =
     \<lparr>userOrganizationId = orEmpty (Option.bind home org_id),
      userOrganizationName = orEmpty (Option.bind home org_name),
      activeOrganizationId = orEmpty (Option.bind active org_id),
      activeOrganizationName = orEmpty (Option.bind active org_name),
      isQIGAdmin = q,
      canAccessOrganization =
        (\<lambda>orgId. q \<or> (case home of None \<Rightarrow> False | Some info \<Rightarrow> org_id info = Some orgId))\<rparr>"

definition authenticateSupabaseUser ::
  "authWorld \<Rightarrow> organizationSessions \<Rightarrow> string option \<Rightarrow> authOutcome \<times> organizationSessions" where
  "authenticateSupabaseUser w store authHeader =
     (if \<not> truthy authHeader \<or> \<not> startsWith (orEmpty authHeader) ''Bearer '' then
        (Respond 401 ''Missing or invalid authorization header'', store)
      else if \<not> supabaseConfigured w then
        (Respond 500 ''Authentication failed'', store)
      else
        (case getUser w (drop 7 (orEmpty authHeader)) of
           None \<Rightarrow> (Respond 401 ''Invalid or expired token'', store)
         | Some u \<Rightarrow>
             (let q = isQIG (user_email u);
                  home = userOrganizationInfo w u;
                  (active, store') = activeOrganization w store u
              in (Next \<lparr>req_user_id = user_id u, req_user_email = orEmpty (user_email u),
                         req_user_organization = active, req_user_isQIG = q\<rparr>
                       (organizationContext q home active),
                  store'))))"

section \<open>Session helpers (the impersonation store)\<close>

definition setOrganizationSession ::
  "int \<Rightarrow> organizationSessions \<Rightarrow> string \<Rightarrow> string \<Rightarrow> organizationSessions" where
  "setOrganizationSession now store userId organizationId =
     store(userId \<mapsto> \<lparr>session_activeOrganizationId = organizationId, session_timestamp = now\<rparr>)"

definition clearOrganizationSession :: "organizationSessions \<Rightarrow> string \<Rightarrow> organizationSessions" where
  "clearOrganizationSession store userId = store(userId := None)"

text \<open>\<^verbatim>\<open>getOrganizationSession\<close> with \<^verbatim>\<open>Date.now()\<close> as a parameter: the value returned and the map afterwards.\<close>

definition getOrganizationSession ::
  "int \<Rightarrow> organizationSessions \<Rightarrow> string \<Rightarrow> orgSession option \<times> organizationSessions" where
  "getOrganizationSession now store userId =
     (case store userId of
        Some session \<Rightarrow>
          if now - session_timestamp session < sessionValidityMs then (Some session, store)
          else (None, store(userId := None))
      | None \<Rightarrow> (None, store))"

section \<open>Score extraction (extractBestScore)\<close>

text \<open>
  A JavaScript number is a finite value (identified here with the rational it denotes,
  negative zero apart), one of the two infinities, or \<^verbatim>\<open>NaN\<close>. A field of a result record holds a number,
  some value of another type, or nothing.
\<close>

datatype jsnumber = Finite rat | NegZero | PosInfinity | NegInfinity | NaN

datatype jsvalue = JUndefined | JNull | JBoolean bool | JNumber jsnumber | JString string

text \<open>
  The fields of \<^verbatim>\<open>SearchResultItem\<close> that the handlers read. \<^verbatim>\<open>metadata\<close> and
  \<^verbatim>\<open>searchData\<close> are objects with arbitrary keys, kept as association lists;
  \<open>item_highlight\<close> is \<^verbatim>\<open>highlight?.text\<close>.
\<close>

record SearchResultItem =
  item_documentId :: "string option"
  item_fileName :: "string option"
  item_score :: jsvalue
  item_relevanceScore :: jsvalue
  item_rankingScore :: jsvalue
  item_text :: "string option"
  item_metadata :: "(string \<times> jsvalue) list option"
  item_highlight :: "string list option"
  item_searchData :: "(string \<times> jsvalue) list option"
  item_suggestedText :: "string option"

text \<open>\<^verbatim>\<open>obj?.key\<close> for an optional object.\<close>

definition optionalField :: "(string \<times> jsvalue) list option \<Rightarrow> string \<Rightarrow> jsvalue" where
  "optionalField obj key =
     (case obj of
        None \<Rightarrow> JUndefined
      | Some entries \<Rightarrow> (case map_of entries key of None \<Rightarrow> JUndefined | Some v \<Rightarrow> v))"

text \<open>The object literal \<^verbatim>\<open>scoreFields\<close>, in the order \<^verbatim>\<open>Object.entries\<close> enumerates it.\<close>

definition scoreFields :: "SearchResultItem \<Rightarrow> (string \<times> jsvalue) list" where
  "scoreFields result =
     [(''primaryScore'', item_score result),
      (''relevanceScore'', item_relevanceScore result),
      (''rankingScore'', item_rankingScore result),
      (''metadataScore'', optionalField (item_metadata result) ''score''),
      (''searchDataScore'', optionalField (item_searchData result) ''score'')]"

text \<open>The loop's test \<^verbatim>\<open>typeof score === 'number' && !isNaN(score)\<close>.\<close>

fun numberNotNaN :: "jsvalue \<Rightarrow> jsnumber option" where
  "numberNotNaN (JNumber n) = (if n = NaN then None else Some n)"
| "numberNotNaN v = None"

fun firstScore :: "(string \<times> jsvalue) list \<Rightarrow> jsnumber \<times> string" where
  "firstScore [] = (Finite 0, ''default'')"
| "firstScore ((source, score) # rest) =
     (case numberNotNaN score of Some n \<Rightarrow> (n, source) | None \<Rightarrow> firstScore rest)"

definition extractBestScore :: "SearchResultItem \<Rightarrow> jsnumber \<times> string" where
  "extractBestScore result = firstScore (scoreFields result)"

text \<open>
  The extraction as the specification words it, for comparison: the first candidate
  that is a \<^emph>\<open>finite\<close> number.
\<close>

fun finiteNumber :: "jsvalue \<Rightarrow> jsnumber option" where
  "finiteNumber (JNumber (Finite q)) = Some (Finite q)"
| "finiteNumber (JNumber NegZero) = Some NegZero"
| "finiteNumber v = None"

fun firstFiniteScore :: "(string \<times> jsvalue) list \<Rightarrow> jsnumber \<times> string" where
  "firstFiniteScore [] = (Finite 0, ''default'')"
| "firstFiniteScore ((source, score) # rest) =
     (case finiteNumber score of Some n \<Rightarrow> (n, source) | None \<Rightarrow> firstFiniteScore rest)"

definition extractBestScore_spec :: "SearchResultItem \<Rightarrow> jsnumber \<times> string" where
  "extractBestScore_spec result = firstFiniteScore (scoreFields result)"

section \<open>Bucket filtering (GET /buckets)\<close>

text \<open>A bucket as the listing returns it; the handler probes three name fields.\<close>

record Bucket =
  bucketId :: int
  bucket_name :: "string option"
  bucket_title :: "string option"
  bucket_bucketName :: "string option"
  documentCount :: "int option"

definition orgToBucketMapping :: "(string \<times> string list) list" where
  "orgToBucketMapping =
     [(''Austin Industries'', [''Austin Industries'', ''Austin'', ''AI'']),
      (''QIG'', [''QIG'', ''Quality Improvement Group'']),
      (''Spinakr'', [''Spinakr'', ''Spinaker'', ''Spnkr''])]"

text \<open>
  \<^verbatim>\<open>orgToBucketMapping\<close> is an object literal, so \<^verbatim>\<open>orgToBucketMapping[key]\<close> also finds
  the properties every object inherits from \<^verbatim>\<open>Object.prototype\<close>. Their values are
  functions (an object for \<^verbatim>\<open>__proto__\<close>): truthy, and without a \<^verbatim>\<open>some\<close> method.
\<close>

definition objectPrototypeKeys :: "string list" where
  "objectPrototypeKeys =
     [''constructor'', ''hasOwnProperty'', ''isPrototypeOf'', ''propertyIsEnumerable'',
      ''toLocaleString'', ''toString'', ''valueOf'', ''__proto__'', ''__defineGetter__'',
      ''__defineSetter__'', ''__lookupGetter__'', ''__lookupSetter__'']"

datatype bucketPatterns = Patterns "string list" | InheritedProperty

text \<open>\<^verbatim>\<open>orgToBucketMapping[organizationName] || [organizationName]\<close>.\<close>

definition bucketPatternsFor :: "string \<Rightarrow> bucketPatterns" where
  "bucketPatternsFor organizationName =
     (case map_of orgToBucketMapping organizationName of
        Some patterns \<Rightarrow> Patterns patterns
      | None \<Rightarrow>
          if organizationName \<in> set objectPrototypeKeys then InheritedProperty
          else Patterns [organizationName])"

text \<open>\<^verbatim>\<open>bucketAny.name || bucketAny.title || bucketAny.bucketName || ''\<close>.\<close>

definition bucketDisplayName :: "Bucket \<Rightarrow> string" where
  "bucketDisplayName bucket =
     (if truthy (bucket_name bucket) then orEmpty (bucket_name bucket)
      else if truthy (bucket_title bucket) then orEmpty (bucket_title bucket)
      else if truthy (bucket_bucketName bucket) then orEmpty (bucket_bucketName bucket)
      else [])"

definition matchesPatterns :: "string list \<Rightarrow> Bucket \<Rightarrow> bool" where
  "matchesPatterns patterns bucket =
     list_ex (\<lambda>pattern. str_includes (toLowerCase (bucketDisplayName bucket)) (toLowerCase pattern))
       patterns"

text \<open>
  Lines 148-176: \<^verbatim>\<open>filteredBuckets\<close> from \<^verbatim>\<open>req.user?.isQIG\<close>,
  \<^verbatim>\<open>req.user?.organization?.name\<close> and the listed buckets. \<open>Inl\<close> is the message of
  the \<^verbatim>\<open>TypeError\<close> thrown when the callback calls \<^verbatim>\<open>some\<close> on an inherited property
  (the handler answers it with status 500); the callback runs once per bucket, so an
  empty listing throws nothing.
\<close>

definition filterBuckets :: "bool \<Rightarrow> string option \<Rightarrow> Bucket list \<Rightarrow> string + Bucket list" where
  "filterBuckets q organizationName buckets =
     (if \<not> q \<and> truthy organizationName then
        (case bucketPatternsFor (orEmpty organizationName) of
           Patterns patterns \<Rightarrow> Inr (filter (matchesPatterns patterns) buckets)
         | InheritedProperty \<Rightarrow>
             if buckets = [] then Inr [] else Inl ''bucketPatterns.some is not a function'')
      else Inr buckets)"

text \<open>
  The filter as the specification words it, for comparison: a name contains a pattern
  as a case-insensitive substring when some stretch of the name equals the pattern up
  to letter case, and the patterns of an organization are its table entry, or its own
  name when it has none.
\<close>

definition containsIgnoringCase :: "string \<Rightarrow> string \<Rightarrow> bool" where
  "containsIgnoringCase name pattern \<longleftrightarrow>
     (\<exists>pre mid post. name = pre @ mid @ post \<and> toLowerCase mid = toLowerCase pattern)"

definition patternsOf :: "string \<Rightarrow> string list" where
  "patternsOf organizationName =
     (case map_of orgToBucketMapping organizationName of
        Some patterns \<Rightarrow> patterns
      | None \<Rightarrow> [organizationName])"

definition keptBySpec :: "string \<Rightarrow> Bucket \<Rightarrow> bool" where
  "keptBySpec organizationName bucket \<longleftrightarrow>
     (\<exists>pattern \<in> set (patternsOf organizationName).
        containsIgnoringCase (bucketDisplayName bucket) pattern)"

section \<open>The search service and the completion service\<close>

text \<open>
  \<^verbatim>\<open>parseInt(s)\<close> with no radix: leading white space is dropped (in the Latin-1 range:
  the code units 9 to 13, 32 and 160), then a sign, then a \<^verbatim>\<open>0x\<close> prefix (which selects
  radix 16); the longest run of digits is read, and no digit at all gives \<^verbatim>\<open>NaN\<close>.
  The integer read is returned as a number: exactly below \<open>2\<^sup>5\<^sup>3\<close>, otherwise rounded to
  the nearest double, ties to the even mantissa, and to infinity from \<open>2\<^sup>1\<^sup>0\<^sup>2\<^sup>4\<close> on. A
  minus sign before a zero gives negative zero.
\<close>

definition isWhiteSpace :: "char \<Rightarrow> bool" where
  "isWhiteSpace c = ((of_char c :: nat) \<in> {9, 10, 11, 12, 13, 32, 160})"

definition digitValue :: "nat \<Rightarrow> char \<Rightarrow> nat option" where
  "digitValue R c =
     (let n = (of_char c :: nat);
          v = (if 48 \<le> n \<and> n \<le> 57 then Some (n - 48)
               else if 97 \<le> n \<and> n \<le> 122 then Some (n - 87)
               else if 65 \<le> n \<and> n \<le> 90 then Some (n - 55)
               else None)
      in case v of None \<Rightarrow> None | Some d \<Rightarrow> if d < R then Some d else None)"

fun digitsPrefix :: "nat \<Rightarrow> string \<Rightarrow> nat list" where
  "digitsPrefix R [] = []"
| "digitsPrefix R (c # cs) =
     (case digitValue R c of None \<Rightarrow> [] | Some d \<Rightarrow> d # digitsPrefix R cs)"

definition digitsValue :: "nat \<Rightarrow> nat list \<Rightarrow> int" where
  "digitsValue R ds = foldl (\<lambda>acc d. acc * int R + int d) 0 ds"

text \<open>The number of binary digits of a positive integer.\<close>

function bitLength :: "int \<Rightarrow> nat" where
  "bitLength n = (if n \<le> 0 then 0 else Suc (bitLength (n div 2)))"
  by pat_completeness auto
termination
  by (relation "measure nat") auto

text \<open>
  The number value of a non-negative integer \<open>m\<close>: with \<open>e\<close> the number of binary digits
  beyond 53, the 53 leading digits \<open>q\<close> are kept and rounded up when the remainder is
  more than half of \<open>2\<^sup>e\<close>, or exactly half with \<open>q\<close> odd.
\<close>

definition numberOfNat :: "int \<Rightarrow> jsnumber" where
  "numberOfNat m =
     (if m < 2 ^ 53 then Finite (of_int m)
      else
        (let e = bitLength m - 53;
             q = m div 2 ^ e;
             r = m mod 2 ^ e;
             rounded = (if 2 ^ e < 2 * r \<or> (2 * r = 2 ^ e \<and> odd q) then q + 1 else q)
         in if 2 ^ 1024 \<le> rounded * 2 ^ e then PosInfinity
            else Finite (of_int (rounded * 2 ^ e))))"

fun negateNumber :: "jsnumber \<Rightarrow> jsnumber" where
  "negateNumber (Finite q) = (if q = 0 then NegZero else Finite (- q))"
| "negateNumber NegZero = Finite 0"
| "negateNumber PosInfinity = NegInfinity"
| "negateNumber NegInfinity = PosInfinity"
| "negateNumber NaN = NaN"

definition parseInt :: "string \<Rightarrow> jsnumber" where
  "parseInt inputString =
     (let S = dropWhile isWhiteSpace inputString;
          negative = startsWith S ''-'';
          S1 = (if startsWith S ''+'' \<or> startsWith S ''-'' then tl S else S);
          hex = (startsWith S1 ''0x'' \<or> startsWith S1 ''0X'');
          R = (if hex then 16 else 10);
          Z = digitsPrefix R (if hex then drop 2 S1 else S1)
      in if Z = [] then NaN
         else if negative then negateNumber (numberOfNat (digitsValue R Z))
         else numberOfNat (digitsValue R Z))"

text \<open>The envelope of a content search: \<^verbatim>\<open>searchResponse?.search?.results\<close>.\<close>

record SearchResponseSearch =
  results :: "SearchResultItem list option"

record SearchResponse =
  search :: "SearchResponseSearch option"

definition searchResults :: "SearchResponse option \<Rightarrow> SearchResultItem list option" where
  "searchResults searchResponse = Option.bind (Option.bind searchResponse search) results"

datatype searchOutcome = SearchRejects string | SearchResolves "SearchResponse option"

datatype role = System | User | Assistant

text \<open>
  A completion resolves with \<^verbatim>\<open>choices[0]?.message?.content\<close> (possibly missing) or
  rejects with an error message.
\<close>

datatype completionOutcome = CompletionRejects string | CompletionResolves "string option"

text \<open>
  The two services, and whether their clients can be built (the lazy initialisers throw
  without an API key). The model name and the token limit of a completion request are
  constants of the source and are left out of the request.
\<close>

record services =
  groundxConfigured :: bool
  searchContent :: "jsnumber \<Rightarrow> string \<Rightarrow> int \<Rightarrow> searchOutcome"
  openaiConfigured :: bool
  createCompletion :: "(role \<times> string) list \<Rightarrow> rat \<Rightarrow> completionOutcome"

text \<open>The network calls a handler issues, in order.\<close>

datatype call =
  SearchContent jsnumber string int
| ChatCompletion "(role \<times> string) list" rat

text \<open>A response: a failure with its status code and error text, or status 200 with a payload.\<close>

datatype 'a response = Failure nat string | Success 'a

text \<open>\<^verbatim>\<open>error.message || 'Unknown error'\<close>.\<close>

definition errorMessage :: "string \<Rightarrow> string" where
  "errorMessage msg = (if msg = [] then ''Unknown error'' else msg)"

text \<open>\<^verbatim>\<open>a || b\<close> on optional strings.\<close>

definition orElse :: "string option \<Rightarrow> string option \<Rightarrow> string option" where
  "orElse a b = (if truthy a then a else b)"

text \<open>
  Request bodies. \<^verbatim>\<open>query\<close> and \<^verbatim>\<open>bucketId\<close> are strings when present, as the
  clients of the service send them; \<^verbatim>\<open>limit\<close>, \<^verbatim>\<open>includeThoughts\<close>, \<^verbatim>\<open>temperature\<close>
  and \<^verbatim>\<open>conversationContext\<close> have the defaults of the destructuring. \<^verbatim>\<open>messages\<close>
  is absent (the default \<^verbatim>\<open>[]\<close> then applies), \<^verbatim>\<open>null\<close> (a default replaces only
  \<^verbatim>\<open>undefined\<close>), or an array; an entry of the array is \<^verbatim>\<open>null\<close> or an object, whose
  role may be missing.
\<close>

record chatMessage =
  message_role :: "string option"
  message_content :: string

datatype messagesField =
  MessagesAbsent
| MessagesNull
| MessagesArray "chatMessage option list"

record searchBody =
  body_query :: "string option"
  body_bucketId :: "string option"
  body_limit :: "int option"

record ragBody = searchBody +
  body_messages :: messagesField
  body_includeThoughts :: "bool option"
  body_temperature :: "rat option"
  body_conversationContext :: "bool option"

definition limitOf :: "'a searchBody_scheme \<Rightarrow> int" where
  "limitOf body = (case body_limit body of None \<Rightarrow> 10 | Some n \<Rightarrow> n)"

section \<open>Content search (POST /search)\<close>

record searchHit =
  hit_documentId :: "string option"
  hit_fileName :: "string option"
  hit_text :: "string option"
  hit_score :: jsnumber
  hit_metadata :: "(string \<times> jsvalue) list option"
  hit_highlights :: "string list"

record searchPayload =
  payload_results :: "searchHit list"
  payload_count :: nat

definition searchHitOf :: "SearchResultItem \<Rightarrow> searchHit" where
  "searchHitOf result =
     \<lparr>hit_documentId = item_documentId result,
      hit_fileName = item_fileName result,
      hit_text = orElse (item_text result) (item_suggestedText result),
      hit_score = fst (extractBestScore result),
      hit_metadata = item_metadata result,
      hit_highlights = (case item_highlight result of None \<Rightarrow> [] | Some hs \<Rightarrow> hs)\<rparr>"

text \<open>
  The handler, with the response and the calls issued. A missing body makes the
  destructuring throw a \<^verbatim>\<open>TypeError\<close>, which the handler's \<^verbatim>\<open>catch\<close> answers with
  status 500 and the error's message.
\<close>

definition destructuringError :: string where
  "destructuringError =
     ''Cannot destructure property '' @ [CHR 0x27] @ ''query'' @ [CHR 0x27] @ '' of ''
     @ [CHR 0x27] @ ''req.body'' @ [CHR 0x27] @ '' as it is undefined.''"

definition searchHandler :: "services \<Rightarrow> searchBody option \<Rightarrow> searchPayload response \<times> call list" where
  "searchHandler w body =
     (case body of
        None \<Rightarrow> (Failure 500 destructuringError, [])
      | Some b \<Rightarrow>
          if \<not> truthy (body_query b) \<or> \<not> truthy (body_bucketId b) then
            (Failure 400 ''Query and bucketId are required'', [])
          else if \<not> groundxConfigured w then
            (Failure 500 ''GROUNDX_API_KEY environment variable is required'', [])
          else
            (let query = orEmpty (body_query b);
                 n = parseInt (orEmpty (body_bucketId b))
             in (case searchContent w n query (limitOf b) of
                   SearchRejects msg \<Rightarrow> Failure 500 (errorMessage msg)
                 | SearchResolves searchResponse \<Rightarrow>
                     (case searchResults searchResponse of
                        None \<Rightarrow> Success \<lparr>payload_results = [], payload_count = 0\<rparr>
                      | Some rs \<Rightarrow>
                          Success \<lparr>payload_results = map searchHitOf rs,
                                   payload_count = length rs\<rparr>),
                 [SearchContent n query (limitOf b)])))"

section \<open>Retrieval-augmented generation (POST /rag)\<close>

record ragSource =
  source_id :: "string option"
  source_fileName :: "string option"
  source_text :: "string option"
  source_metadata :: "(string \<times> jsvalue) list option"
  source_score :: jsnumber
  source_rawScore :: jsnumber
  source_scoreSource :: string
  source_highlights :: "string list"
  source_searchData :: "(string \<times> jsvalue) list option"

text \<open>The payload of a successful answer; the timestamp and the timings are left out.\<close>

record ragPayload =
  rag_query :: string
  rag_response :: string
  rag_thoughts :: "string option"
  rag_count :: nat
  rag_sources :: "ragSource list"

definition ragSourceOf :: "SearchResultItem \<Rightarrow> ragSource" where
  "ragSourceOf result =
     (let scoreData = extractBestScore result in
      \<lparr>source_id = item_documentId result,
       source_fileName = item_fileName result,
       source_text = orElse (item_text result) (item_suggestedText result),
       source_metadata = item_metadata result,
       source_score = fst scoreData,
       source_rawScore = fst scoreData,
       source_scoreSource = snd scoreData,
       source_highlights = (case item_highlight result of None \<Rightarrow> [] | Some hs \<Rightarrow> hs),
       source_searchData = item_searchData result\<rparr>)"

text \<open>Template strings: a number in decimal, a missing value as \<^verbatim>\<open>undefined\<close>.\<close>

fun showNat :: "nat \<Rightarrow> string" where
  "showNat n =
     (if n < 10 then [char_of (48 + n)] else showNat (n div 10) @ [char_of (48 + n mod 10)])"

definition showOptional :: "string option \<Rightarrow> string" where
  "showOptional v = (case v of None \<Rightarrow> ''undefined'' | Some s \<Rightarrow> s)"

fun join :: "string \<Rightarrow> string list \<Rightarrow> string" where
  "join sep [] = []"
| "join sep [x] = x"
| "join sep (x # y # ys) = x @ sep @ join sep (y # ys)"

definition newline :: string where
  "newline = [CHR 0x0A]"

definition contextOf :: "ragSource list \<Rightarrow> string" where
  "contextOf sources =
     join (newline @ newline)
       (map (\<lambda>(index, source).
               ''['' @ showNat (index + 1) @ ''] '' @ showOptional (source_fileName source)
                 @ '': '' @ showOptional (source_text source))
          (enumerate 0 sources))"

definition systemPrompt :: "string \<Rightarrow> string" where
  "systemPrompt context =
     ''You are an AI assistant that answers questions based on the provided document context.''
     @ newline
     @ ''Use the numbered references [1], [2], etc. to cite specific documents when making claims.''
     @ newline
     @ ''Be precise and factual. If the context doesn'' @ [CHR 0x27]
     @ ''t contain enough information to answer the question, say so.''
     @ newline @ newline @ ''Context:'' @ newline @ context"

text \<open>
  The loop over the earlier turns: the turns of the roles \<open>user\<close> and \<open>assistant\<close> are
  passed on, in order. Reading the role of a \<^verbatim>\<open>null\<close> entry throws a \<^verbatim>\<open>TypeError\<close>,
  which is the result \<open>None\<close>.
\<close>

fun previousTurns :: "chatMessage option list \<Rightarrow> (role \<times> string) list option" where
  "previousTurns [] = Some []"
| "previousTurns (None # rest) = None"
| "previousTurns (Some msg # rest) =
     (case previousTurns rest of
        None \<Rightarrow> None
      | Some turns \<Rightarrow>
          Some (if message_role msg = Some ''user'' then (User, message_content msg) # turns
                else if message_role msg = Some ''assistant'' then
                  (Assistant, message_content msg) # turns
                else turns))"

text \<open>The earlier turns are all but the last message, and only with \<^verbatim>\<open>conversationContext\<close>.\<close>

definition historyOf :: "bool \<Rightarrow> chatMessage option list \<Rightarrow> (role \<times> string) list option" where
  "historyOf conversationContext messages =
     (if conversationContext \<and> length messages > 1 then previousTurns (butlast messages)
      else Some [])"

definition openaiMessages ::
  "ragSource list \<Rightarrow> bool \<Rightarrow> chatMessage option list \<Rightarrow> string
     \<Rightarrow> (role \<times> string) list option" where
  "openaiMessages sources conversationContext messages query =
     (case historyOf conversationContext messages of
        None \<Rightarrow> None
      | Some history \<Rightarrow>
          Some ((System, systemPrompt (contextOf sources)) # history @ [(User, query)]))"

definition thoughtsOf :: "nat \<Rightarrow> string \<Rightarrow> bool \<Rightarrow> string" where
  "thoughtsOf count query conversationContext =
     ''I searched through '' @ showNat count
     @ '' documents and found relevant information to answer your question about ''
     @ [CHR 0x22] @ query @ [CHR 0x22] @ ''. ''
     @ (if conversationContext then ''I considered our previous conversation context.'' else [])"

text \<open>
  The value of \<^verbatim>\<open>messages\<close> after the destructuring, \<open>None\<close> for \<^verbatim>\<open>null\<close>; the completion
  request for a body, its messages and the sources, \<open>None\<close> when building it throws; and
  the temperature (default 0.3).
\<close>

definition conversationContextOf :: "ragBody \<Rightarrow> bool" where
  "conversationContextOf b = (body_conversationContext b = Some True)"

definition messagesOf :: "ragBody \<Rightarrow> chatMessage option list option" where
  "messagesOf b =
     (case body_messages b of
        MessagesAbsent \<Rightarrow> Some []
      | MessagesNull \<Rightarrow> None
      | MessagesArray ms \<Rightarrow> Some ms)"

definition requestFor ::
  "ragBody \<Rightarrow> chatMessage option list \<Rightarrow> ragSource list \<Rightarrow> (role \<times> string) list option" where
  "requestFor b messages sources =
     openaiMessages sources (conversationContextOf b) messages (orEmpty (body_query b))"

definition temperatureOf :: "ragBody \<Rightarrow> rat" where
  "temperatureOf b = (case body_temperature b of None \<Rightarrow> 3 / 10 | Some t \<Rightarrow> t)"

text \<open>The messages of the two \<^verbatim>\<open>TypeError\<close>s that a \<^verbatim>\<open>null\<close> in the messages raises.\<close>

definition nullLengthError :: string where
  "nullLengthError =
     ''Cannot read properties of null (reading '' @ [CHR 0x27] @ ''length'' @ [CHR 0x27] @ '')''"

definition nullRoleError :: string where
  "nullRoleError =
     ''Cannot read properties of null (reading '' @ [CHR 0x27] @ ''role'' @ [CHR 0x27] @ '')''"

text \<open>
  Lines 319-401: the generation phase and the assembly of the answer. The request is
  built before the completion client is fetched, so a \<^verbatim>\<open>null\<close> entry among the earlier
  turns fails the request with no completion call.
\<close>

definition ragGenerate ::
  "services \<Rightarrow> ragBody \<Rightarrow> chatMessage option list \<Rightarrow> ragSource list
     \<Rightarrow> ragPayload response \<times> call list" where
  "ragGenerate w b messages sources =
     (case requestFor b messages sources of
        None \<Rightarrow> (Failure 500 nullRoleError, [])
      | Some request \<Rightarrow>
          if \<not> openaiConfigured w then
            (Failure 500 ''OPENAI_API_KEY environment variable is required'', [])
          else
            (case createCompletion w request (temperatureOf b) of
               CompletionRejects msg \<Rightarrow> Failure 500 (errorMessage msg)
             | CompletionResolves content \<Rightarrow>
                 Success
                   \<lparr>rag_query = orEmpty (body_query b),
                    rag_response =
                      (if truthy content then orEmpty content else ''No response generated''),
                    rag_thoughts =
                      (if body_includeThoughts b = Some True then
                         Some (thoughtsOf (length sources) (orEmpty (body_query b))
                                 (conversationContextOf b))
                       else None),
                    rag_count = length sources,
                    rag_sources = sources\<rparr>,
             [ChatCompletion request (temperatureOf b)]))"

text \<open>
  Lines 208-411: the handler, with the response and the calls issued, from
  \<^verbatim>\<open>req.user\<close> and \<^verbatim>\<open>req.body\<close>. The log line of lines 251-258 reads
  \<^verbatim>\<open>messages.length\<close> before the query and the bucket id are tested, so a body whose
  messages are \<^verbatim>\<open>null\<close> is answered by the handler's \<^verbatim>\<open>catch\<close>, with status 500.
\<close>

definition ragHandler ::
  "services \<Rightarrow> reqUser option \<Rightarrow> ragBody option \<Rightarrow> ragPayload response \<times> call list" where
  "ragHandler w reqUser body =
     (if reqUser = None then (Failure 401 ''Authentication required'', [])
      else
        (case body of
           None \<Rightarrow> (Failure 400 ''Request body is missing or empty'', [])
         | Some b \<Rightarrow>
             (case messagesOf b of
                None \<Rightarrow> (Failure 500 nullLengthError, [])
              | Some messages \<Rightarrow>
                  if \<not> truthy (body_query b) \<or> \<not> truthy (body_bucketId b) then
                    (Failure 400 ''Query and bucketId are required'', [])
                  else if \<not> groundxConfigured w then
                    (Failure 500 ''GROUNDX_API_KEY environment variable is required'', [])
                  else
                    (let query = orEmpty (body_query b);
                         n = parseInt (orEmpty (body_bucketId b));
                         searchCall = SearchContent n query (limitOf b)
                     in (case searchContent w n query (limitOf b) of
                           SearchRejects msg \<Rightarrow> (Failure 500 (errorMessage msg), [searchCall])
                         | SearchResolves searchResponse \<Rightarrow>
                             (case searchResults searchResponse of
                                None \<Rightarrow>
                                  (Failure 500 ''No search results from GroundX'', [searchCall])
                              | Some rs \<Rightarrow>
                                  (let (answer, calls) =
                                         ragGenerate w b messages (map ragSourceOf rs)
                                   in (answer, searchCall # calls))))))))"

section \<open>Reference notions and example inputs\<close>






text \<open>An identity outside the administrative domains, with no organization assignment.\<close>

definition exampleUser :: user where
  "exampleUser = \<lparr>user_id = ''u1'', user_email = Some ''user@spinakr.com''\<rparr>"

definition worldWithoutAssignment :: authWorld where
  "worldWithoutAssignment =
     \<lparr>supabaseConfigured = True,
      getUser = (\<lambda>token. Some exampleUser),
      configsByCreator = (\<lambda>userId. Some []),
      configByOrganization = (\<lambda>orgId. None),
      dateNow = 0\<rparr>"

text \<open>The same identity with an active assignment to the organization \<open>org-42\<close>.\<close>

definition worldWithAssignment :: authWorld where
  "worldWithAssignment =
     \<lparr>supabaseConfigured = True,
      getUser = (\<lambda>token. Some exampleUser),
      configsByCreator =
        (\<lambda>userId. Some [\<lparr>organization_id = Some ''org-42'',
                           client_name = Some ''Austin Industries'',
                           client_type = Some ''construction''\<rparr>]),
      configByOrganization = (\<lambda>orgId. None),
      dateNow = 5000\<rparr>"

definition exampleHome :: organizationInfo where
  "exampleHome =
     \<lparr>org_id = Some ''org-42'', org_name = Some ''Austin Industries'',
      org_type = Some ''construction''\<rparr>"

definition exampleReqUser :: reqUser where
  "exampleReqUser =
     \<lparr>req_user_id = ''u1'', req_user_email = ''user@spinakr.com'',
      req_user_organization = Some exampleHome, req_user_isQIG = False\<rparr>"

text \<open>A session map with one entry, written at time 1000 for the subject \<open>u1\<close>.\<close>

definition exampleSession :: orgSession where
  "exampleSession = \<lparr>session_activeOrganizationId = ''org-7'', session_timestamp = 1000\<rparr>"

definition exampleSessions :: organizationSessions where
  "exampleSessions = Map.empty(''u1'' \<mapsto> exampleSession)"

text \<open>
  Score records: one whose primary score is infinite, and the record of the precedence
  scenario (primary score 0.2, metadata score 0.9).
\<close>

definition infiniteScoreItem :: SearchResultItem where
  "infiniteScoreItem =
     \<lparr>item_documentId = Some ''doc1'', item_fileName = Some ''a.pdf'',
      item_score = JNumber PosInfinity, item_relevanceScore = JNumber (Finite (1 / 2)),
      item_rankingScore = JUndefined, item_text = Some ''t'', item_metadata = None,
      item_highlight = None, item_searchData = None, item_suggestedText = None\<rparr>"

definition precedenceItem :: SearchResultItem where
  "precedenceItem =
     \<lparr>item_documentId = Some ''doc1'', item_fileName = Some ''a.pdf'',
      item_score = JNumber (Finite (2 / 10)), item_relevanceScore = JUndefined,
      item_rankingScore = JUndefined, item_text = Some ''t'',
      item_metadata = Some [(''score'', JNumber (Finite (9 / 10)))],
      item_highlight = None, item_searchData = None, item_suggestedText = None\<rparr>"

text \<open>The buckets of the filtering scenarios.\<close>

definition namedBucket :: "int \<Rightarrow> string \<Rightarrow> Bucket" where
  "namedBucket n name =
     \<lparr>bucketId = n, bucket_name = Some name, bucket_title = None,
      bucket_bucketName = None, documentCount = Some 1\<rparr>"

definition scenarioBuckets :: "Bucket list" where
  "scenarioBuckets =
     [namedBucket 1 ''Austin Industries Contracts'', namedBucket 2 ''QIG Internal'',
      namedBucket 3 ''Spinakr Ads'']"

text \<open>
  Services whose search resolves with an envelope that lacks the results array, and
  with an empty results array; the completion resolves in both.
\<close>

definition servicesMissingResults :: services where
  "servicesMissingResults =
     \<lparr>groundxConfigured = True,
      searchContent = (\<lambda>n query limit. SearchResolves (Some \<lparr>search = None\<rparr>)),
      openaiConfigured = True,
      createCompletion = (\<lambda>request temperature. CompletionResolves (Some ''answer''))\<rparr>"

definition servicesEmptyResults :: services where
  "servicesEmptyResults =
     \<lparr>groundxConfigured = True,
      searchContent = (\<lambda>n query limit. SearchResolves (Some \<lparr>search = Some \<lparr>results = Some []\<rparr>\<rparr>)),
      openaiConfigured = True,
      createCompletion = (\<lambda>request temperature. CompletionResolves (Some ''answer''))\<rparr>"

definition exampleSearchBody :: searchBody where
  "exampleSearchBody = \<lparr>body_query = Some ''q'', body_bucketId = Some ''123'', body_limit = None\<rparr>"

definition exampleRagBody :: ragBody where
  "exampleRagBody =
     \<lparr>body_query = Some ''q'', body_bucketId = Some ''123'', body_limit = None,
      body_messages = MessagesAbsent, body_includeThoughts = None, body_temperature = None,
      body_conversationContext = None\<rparr>"

text \<open>A body whose bucket id is present and is not a number.\<close>

definition nonIntegerRagBody :: ragBody where
  "nonIntegerRagBody =
     \<lparr>body_query = Some ''q'', body_bucketId = Some ''abc'', body_limit = None,
      body_messages = MessagesAbsent, body_includeThoughts = None, body_temperature = None,
      body_conversationContext = None\<rparr>"

text \<open>A body whose query is the empty string.\<close>

definition emptyQueryRagBody :: ragBody where
  "emptyQueryRagBody =
     \<lparr>body_query = Some [], body_bucketId = Some ''123'', body_limit = None,
      body_messages = MessagesAbsent, body_includeThoughts = None, body_temperature = None,
      body_conversationContext = None\<rparr>"

text \<open>A body with an empty query whose messages are \<^verbatim>\<open>null\<close>.\<close>

definition nullMessagesRagBody :: ragBody where
  "nullMessagesRagBody =
     \<lparr>body_query = Some [], body_bucketId = Some ''123'', body_limit = None,
      body_messages = MessagesNull, body_includeThoughts = None, body_temperature = None,
      body_conversationContext = None\<rparr>"

section \<open>Properties\<close>

subsection \<open>String search\<close>

lemma startsWith_iff: "startsWith s p \<longleftrightarrow> (\<exists>post. s = p @ post)"
  by (induction s p rule: startsWith.induct) auto

lemma str_includes_iff: "str_includes s p \<longleftrightarrow> (\<exists>pre post. s = pre @ p @ post)"
proof (induction s)
  case Nil
  show ?case by (cases p) auto
next
  case (Cons c cs)
  show ?case
  proof
    assume "str_includes (c # cs) p"
    then consider "startsWith (c # cs) p" | "str_includes cs p" by auto
    then show "\<exists>pre post. c # cs = pre @ p @ post"
    proof cases
      case 1
      then obtain post where "c # cs = p @ post" by (auto simp: startsWith_iff)
      then have "c # cs = [] @ p @ post" by simp
      then show ?thesis by blast
    next
      case 2
      then obtain pre post where "cs = pre @ p @ post" using Cons.IH by blast
      then have "c # cs = (c # pre) @ p @ post" by simp
      then show ?thesis by blast
    qed
  next
    assume "\<exists>pre post. c # cs = pre @ p @ post"
    then obtain pre post where eq: "c # cs = pre @ p @ post" by blast
    show "str_includes (c # cs) p"
    proof (cases pre)
      case Nil
      with eq have "startsWith (c # cs) p" by (auto simp: startsWith_iff)
      then show ?thesis by simp
    next
      case (Cons a pre')
      with eq have "cs = pre' @ p @ post" by simp
      then have "str_includes cs p" using Cons.IH by blast
      then show ?thesis by simp
    qed
  qed
qed

lemma toLowerCase_includes_iff:
  "str_includes (toLowerCase name) (toLowerCase pattern) \<longleftrightarrow> containsIgnoringCase name pattern"
proof
  assume "str_includes (toLowerCase name) (toLowerCase pattern)"
  then obtain a c where "map toLowerChar name = a @ map toLowerChar pattern @ c"
    by (auto simp: str_includes_iff toLowerCase_def)
  then have "\<exists>pre rest. name = pre @ rest \<and> a = map toLowerChar pre
      \<and> map toLowerChar pattern @ c = map toLowerChar rest"
    unfolding map_eq_append_conv .
  then obtain pre rest where n: "name = pre @ rest"
    and r: "map toLowerChar pattern @ c = map toLowerChar rest"
    by blast
  from r have "\<exists>mid post. rest = mid @ post \<and> map toLowerChar pattern = map toLowerChar mid
      \<and> c = map toLowerChar post"
    unfolding append_eq_map_conv .
  then obtain mid post where "rest = mid @ post" "map toLowerChar mid = map toLowerChar pattern"
    by auto
  with n show "containsIgnoringCase name pattern"
    unfolding containsIgnoringCase_def toLowerCase_def by blast
next
  assume "containsIgnoringCase name pattern"
  then obtain pre mid post where "name = pre @ mid @ post" "toLowerCase mid = toLowerCase pattern"
    by (auto simp: containsIgnoringCase_def)
  then have "toLowerCase name = toLowerCase pre @ toLowerCase pattern @ toLowerCase post"
    by (simp add: toLowerCase_def)
  then show "str_includes (toLowerCase name) (toLowerCase pattern)"
    unfolding str_includes_iff by blast
qed


subsection \<open>Privilege\<close>











subsection \<open>The organization context\<close>

lemma authenticate_Next:
  assumes "authenticateSupabaseUser w store authHeader = (Next ru ctx, store')"
  obtains u where "getUser w (drop 7 (orEmpty authHeader)) = Some u"
    and "ctx = organizationContext (isQIG (user_email u)) (userOrganizationInfo w u)
                 (fst (activeOrganization w store u))"
    and "store' = snd (activeOrganization w store u)"
    and "ru = \<lparr>req_user_id = user_id u, req_user_email = orEmpty (user_email u),
               req_user_organization = fst (activeOrganization w store u),
               req_user_isQIG = isQIG (user_email u)\<rparr>"
  using assms
  by (auto simp: authenticateSupabaseUser_def Let_def split: if_splits option.splits prod.splits)

text \<open>
  C2, as the code has it. \<open>canAccessOrganization\<close> holds exactly for a privileged
  context, or when an organization assignment was found and the argument is its
  organization id. So with a non-empty home organization id it holds iff the context
  is privileged or the argument equals that id; and when no assignment was found the home
  organization id is the empty string and access is refused for every argument, the
  empty string included, unless the context is privileged.
\<close>

theorem canAccessOrganization_amended:
  assumes "authenticateSupabaseUser w store authHeader = (Next ru ctx, store')"
    and "getUser w (drop 7 (orEmpty authHeader)) = Some u"
  shows "(canAccessOrganization ctx orgId \<longleftrightarrow>
            isQIGAdmin ctx \<or> (\<exists>info. userOrganizationInfo w u = Some info \<and> org_id info = Some orgId))
       \<and> (userOrganizationId ctx \<noteq> [] \<longrightarrow>
            (canAccessOrganization ctx orgId \<longleftrightarrow> isQIGAdmin ctx \<or> orgId = userOrganizationId ctx))
       \<and> (userOrganizationInfo w u = None \<longrightarrow>
            userOrganizationId ctx = [] \<and> (canAccessOrganization ctx orgId \<longleftrightarrow> isQIGAdmin ctx))"
proof -
  from assms have ctx: "ctx = organizationContext (isQIG (user_email u)) (userOrganizationInfo w u)
                 (fst (activeOrganization w store u))"
    by (auto elim!: authenticate_Next)
  show ?thesis
    unfolding ctx organizationContext_def
    by (cases "userOrganizationInfo w u"; cases "Option.bind (userOrganizationInfo w u) org_id")
       (auto split: option.splits)
qed

text \<open>
  C2 at the identity assigned to \<open>org-42\<close>: access to \<open>org-42\<close>, none to \<open>org-7\<close>.
\<close>

theorem canAccessOrganization_amended_witness:
  "authenticateSupabaseUser worldWithAssignment Map.empty (Some ''Bearer token'')
     = (Next exampleReqUser (organizationContext False (Some exampleHome) (Some exampleHome)),
        Map.empty)
   \<and> userOrganizationId (organizationContext False (Some exampleHome) (Some exampleHome)) = ''org-42''
   \<and> canAccessOrganization (organizationContext False (Some exampleHome) (Some exampleHome)) ''org-42''
   \<and> \<not> canAccessOrganization (organizationContext False (Some exampleHome) (Some exampleHome)) ''org-7''"
proof -
  have run: "authenticateSupabaseUser worldWithAssignment Map.empty (Some ''Bearer token'')
     = (Next exampleReqUser (organizationContext False (Some exampleHome) (Some exampleHome)),
        Map.empty)"
    by (simp add: authenticateSupabaseUser_def worldWithAssignment_def exampleUser_def
        isQIG_def userOrganizationInfo_def activeOrganization_def infoOfConfig_def
        exampleHome_def exampleReqUser_def)
  have u: "getUser worldWithAssignment (drop 7 (orEmpty (Some ''Bearer token''))) = Some exampleUser"
    by (simp add: worldWithAssignment_def)
  have home: "userOrganizationId (organizationContext False (Some exampleHome) (Some exampleHome))
      = ''org-42''"
    by (simp add: organizationContext_def exampleHome_def)
  have np: "\<not> isQIGAdmin (organizationContext False (Some exampleHome) (Some exampleHome))"
    by (simp add: organizationContext_def)
  have info: "userOrganizationInfo worldWithAssignment exampleUser = Some exampleHome"
    by (simp add: worldWithAssignment_def exampleUser_def isQIG_def userOrganizationInfo_def
        infoOfConfig_def exampleHome_def)
  have id: "org_id exampleHome = Some ''org-42''"
    by (simp add: exampleHome_def)
  show ?thesis
    using run home np info id canAccessOrganization_amended [OF run u, of "''org-42''"]
      canAccessOrganization_amended [OF run u, of "''org-7''"]
    by simp
qed

text \<open>
  C2 as stated fails for the identity with no assignment: the home organization id is
  the empty string, the context is not privileged, and access to the empty string is
  refused although it equals the home organization id.
\<close>

theorem canAccessOrganization_counterexample:
  "fst (authenticateSupabaseUser worldWithoutAssignment Map.empty (Some ''Bearer token''))
     = Next \<lparr>req_user_id = ''u1'', req_user_email = ''user@spinakr.com'',
             req_user_organization = None, req_user_isQIG = False\<rparr>
         (organizationContext False None None)
   \<and> userOrganizationId (organizationContext False None None) = []
   \<and> \<not> (canAccessOrganization (organizationContext False None None) []
          \<longleftrightarrow> (isQIGAdmin (organizationContext False None None)
               \<or> [] = userOrganizationId (organizationContext False None None)))"
  by (simp add: authenticateSupabaseUser_def worldWithoutAssignment_def exampleUser_def
      isQIG_def userOrganizationInfo_def activeOrganization_def organizationContext_def)

text \<open>
  C9. For a non-privileged identity the resolved context has the home organization as
  its active organization, by id and by name. The session map is left as it was, and
  the outcome is the same whatever the map holds: it is not consulted.
\<close>

theorem nonprivileged_active_is_home:
  assumes "authenticateSupabaseUser w store authHeader = (Next ru ctx, store')"
    and "\<not> isQIGAdmin ctx"
  shows "activeOrganizationId ctx = userOrganizationId ctx
       \<and> activeOrganizationName ctx = userOrganizationName ctx
       \<and> store' = store
       \<and> authenticateSupabaseUser w otherStore authHeader = (Next ru ctx, otherStore)"
proof -
  from assms(1) obtain u where u: "getUser w (drop 7 (orEmpty authHeader)) = Some u"
    and ctx: "ctx = organizationContext (isQIG (user_email u)) (userOrganizationInfo w u)
                 (fst (activeOrganization w store u))"
    by (auto elim!: authenticate_Next)
  from assms(2) ctx have nq: "\<not> isQIG (user_email u)"
    by (simp add: organizationContext_def)
  then have act: "\<And>s. activeOrganization w s u = (userOrganizationInfo w u, s)"
    by (simp add: activeOrganization_def)
  show ?thesis
    using assms(1) u nq act
    by (auto simp: authenticateSupabaseUser_def organizationContext_def Let_def split: if_splits)
qed

text \<open>C9 at the identity assigned to \<open>org-42\<close>, with a live session stored under its subject id.\<close>

theorem nonprivileged_active_is_home_witness:
  "authenticateSupabaseUser worldWithAssignment exampleSessions (Some ''Bearer token'')
     = (Next exampleReqUser (organizationContext False (Some exampleHome) (Some exampleHome)),
        exampleSessions)
   \<and> activeOrganizationId (organizationContext False (Some exampleHome) (Some exampleHome)) = ''org-42''
   \<and> userOrganizationId (organizationContext False (Some exampleHome) (Some exampleHome)) = ''org-42''
   \<and> activeOrganizationName (organizationContext False (Some exampleHome) (Some exampleHome))
       = userOrganizationName (organizationContext False (Some exampleHome) (Some exampleHome))"
proof -
  have run: "authenticateSupabaseUser worldWithAssignment exampleSessions (Some ''Bearer token'')
     = (Next exampleReqUser (organizationContext False (Some exampleHome) (Some exampleHome)),
        exampleSessions)"
    by (simp add: authenticateSupabaseUser_def worldWithAssignment_def exampleUser_def
        isQIG_def userOrganizationInfo_def activeOrganization_def infoOfConfig_def
        exampleHome_def exampleReqUser_def)
  have np: "\<not> isQIGAdmin (organizationContext False (Some exampleHome) (Some exampleHome))"
    by (simp add: organizationContext_def)
  have home: "userOrganizationId (organizationContext False (Some exampleHome) (Some exampleHome))
      = ''org-42''"
    by (simp add: organizationContext_def exampleHome_def)
  show ?thesis
    using run home nonprivileged_active_is_home [OF run np]
    by simp
qed

subsection \<open>The impersonation store\<close>

text \<open>
  C8. For a subject with a stored session: when the session is 24 hours old or older
  (the exact boundary included), \<open>getOrganizationSession\<close> returns nothing and the
  entry is deleted; when it is strictly younger, the session is returned, with the
  stored organization id, and the map is unchanged.
\<close>

theorem getOrganizationSession_expiry:
  assumes "store userId = Some session"
  shows "(24 * 60 * 60 * 1000 \<le> now - session_timestamp session \<longrightarrow>
            getOrganizationSession now store userId = (None, store(userId := None)))
       \<and> (now - session_timestamp session < 24 * 60 * 60 * 1000 \<longrightarrow>
            getOrganizationSession now store userId = (Some session, store)
            \<and> map_option session_activeOrganizationId (fst (getOrganizationSession now store userId))
                = Some (session_activeOrganizationId session))"
  using assms by (simp add: getOrganizationSession_def sessionValidityMs_def)

text \<open>
  C8 at a session written at time 1000: returned one millisecond before the boundary,
  deleted at the boundary.
\<close>

theorem getOrganizationSession_expiry_witness:
  "getOrganizationSession (1000 + 86400000 - 1) exampleSessions ''u1''
     = (Some exampleSession, exampleSessions)
   \<and> getOrganizationSession (1000 + 86400000) exampleSessions ''u1''
     = (None, exampleSessions(''u1'' := None))"
proof -
  have s: "exampleSessions ''u1'' = Some exampleSession"
    by (simp add: exampleSessions_def)
  have t: "session_timestamp exampleSession = 1000"
    by (simp add: exampleSession_def)
  show ?thesis
    using s t
      getOrganizationSession_expiry
        [of exampleSessions "''u1''" exampleSession "1000 + 86400000 - 1"]
      getOrganizationSession_expiry
        [of exampleSessions "''u1''" exampleSession "1000 + 86400000"]
    by simp
qed


subsection \<open>Score extraction\<close>

lemma firstScore_cases:
  "(\<exists>pre source score n post.
       fs = pre @ (source, score) # post \<and> numberNotNaN score = Some n
       \<and> (\<forall>entry \<in> set pre. numberNotNaN (snd entry) = None)
       \<and> firstScore fs = (n, source))
   \<or> ((\<forall>entry \<in> set fs. numberNotNaN (snd entry) = None)
       \<and> firstScore fs = (Finite 0, ''default''))"
proof (induction fs)
  case Nil
  show ?case by simp
next
  case (Cons e fs)
  obtain source score where e: "e = (source, score)" by (cases e)
  show ?case
  proof (cases "numberNotNaN score")
    case (Some n)
    then have "e # fs = [] @ (source, score) # fs \<and> numberNotNaN score = Some n
       \<and> (\<forall>entry \<in> set []. numberNotNaN (snd entry) = None)
       \<and> firstScore (e # fs) = (n, source)"
      using e by simp
    then show ?thesis by blast
  next
    case None
    from Cons.IH show ?thesis
    proof
      assume "\<exists>pre source' score' n post.
       fs = pre @ (source', score') # post \<and> numberNotNaN score' = Some n
       \<and> (\<forall>entry \<in> set pre. numberNotNaN (snd entry) = None)
       \<and> firstScore fs = (n, source')"
      then obtain pre source' score' n post where
        "fs = pre @ (source', score') # post" "numberNotNaN score' = Some n"
        "\<forall>entry \<in> set pre. numberNotNaN (snd entry) = None" "firstScore fs = (n, source')"
        by blast
      with None e have "e # fs = (e # pre) @ (source', score') # post \<and> numberNotNaN score' = Some n
       \<and> (\<forall>entry \<in> set (e # pre). numberNotNaN (snd entry) = None)
       \<and> firstScore (e # fs) = (n, source')"
        by simp
      then show ?thesis by blast
    next
      assume "(\<forall>entry \<in> set fs. numberNotNaN (snd entry) = None)
       \<and> firstScore fs = (Finite 0, ''default'')"
      with None e show ?thesis by simp
    qed
  qed
qed

lemma numberNotNaN_Some: "numberNotNaN v = Some n \<longleftrightarrow> v = JNumber n \<and> n \<noteq> NaN"
  by (cases v) auto

lemma firstScore_eq_finite:
  "\<forall>entry \<in> set fs. snd entry \<noteq> JNumber PosInfinity \<and> snd entry \<noteq> JNumber NegInfinity
   \<Longrightarrow> firstFiniteScore fs = firstScore fs"
proof (induction fs)
  case Nil
  show ?case by simp
next
  case (Cons e fs)
  obtain source score where e: "e = (source, score)" by (cases e)
  from Cons.prems e have "finiteNumber score = numberNotNaN score"
    by (cases score rule: finiteNumber.cases) auto
  with Cons e show ?case by (simp split: option.splits)
qed

text \<open>
  C10, as the code has it. The candidates, the fields \<^verbatim>\<open>score\<close>, \<^verbatim>\<open>relevanceScore\<close>,
  \<^verbatim>\<open>rankingScore\<close>, \<^verbatim>\<open>metadata?.score\<close> and \<^verbatim>\<open>searchData?.score\<close> of the record, are
  scanned in the order primary score,
  relevance score, ranking score, metadata score, search-data score, and the first that
  is a number other than \<open>NaN\<close> is returned with the name of its field; an infinite value
  qualifies. If none qualifies the result is 0 with provenance \<open>default\<close>. On every
  record none of whose candidates is infinite this is the first finite number, as the
  specification words it. In particular a primary score of 0.2 is returned with
  provenance \<open>primaryScore\<close> whatever the metadata score is.
\<close>

theorem extractBestScore_amended:
  "((\<exists>pre source score n post.
        scoreFields r = pre @ (source, score) # post \<and> score = JNumber n \<and> n \<noteq> NaN
        \<and> (\<forall>entry \<in> set pre. numberNotNaN (snd entry) = None)
        \<and> extractBestScore r = (n, source))
     \<or> ((\<forall>entry \<in> set (scoreFields r). numberNotNaN (snd entry) = None)
        \<and> extractBestScore r = (Finite 0, ''default'')))
   \<and> map fst (scoreFields r)
       = [''primaryScore'', ''relevanceScore'', ''rankingScore'', ''metadataScore'',
          ''searchDataScore'']
   \<and> map snd (scoreFields r)
       = [item_score r, item_relevanceScore r, item_rankingScore r,
          optionalField (item_metadata r) ''score'', optionalField (item_searchData r) ''score'']
   \<and> (numberNotNaN v = None \<longleftrightarrow> (\<forall>m. v = JNumber m \<longrightarrow> m = NaN))
   \<and> ((\<forall>entry \<in> set (scoreFields r).
          snd entry \<noteq> JNumber PosInfinity \<and> snd entry \<noteq> JNumber NegInfinity)
       \<longrightarrow> extractBestScore r = extractBestScore_spec r)
   \<and> (item_score r = JNumber (Finite (2 / 10))
       \<longrightarrow> extractBestScore r = (Finite (2 / 10), ''primaryScore''))"
proof -
  have scan: "(\<exists>pre source score n post.
        scoreFields r = pre @ (source, score) # post \<and> score = JNumber n \<and> n \<noteq> NaN
        \<and> (\<forall>entry \<in> set pre. numberNotNaN (snd entry) = None)
        \<and> extractBestScore r = (n, source))
     \<or> ((\<forall>entry \<in> set (scoreFields r). numberNotNaN (snd entry) = None)
        \<and> extractBestScore r = (Finite 0, ''default''))"
    using firstScore_cases [of "scoreFields r"]
    unfolding extractBestScore_def numberNotNaN_Some by blast
  have names: "map fst (scoreFields r)
       = [''primaryScore'', ''relevanceScore'', ''rankingScore'', ''metadataScore'',
          ''searchDataScore'']"
    by (simp add: scoreFields_def)
  have candidates: "map snd (scoreFields r)
       = [item_score r, item_relevanceScore r, item_rankingScore r,
          optionalField (item_metadata r) ''score'', optionalField (item_searchData r) ''score'']"
    by (simp add: scoreFields_def)
  have none: "numberNotNaN v = None \<longleftrightarrow> (\<forall>m. v = JNumber m \<longrightarrow> m = NaN)"
    by (cases v) auto
  have agree: "(\<forall>entry \<in> set (scoreFields r).
          snd entry \<noteq> JNumber PosInfinity \<and> snd entry \<noteq> JNumber NegInfinity)
       \<longrightarrow> extractBestScore r = extractBestScore_spec r"
    using firstScore_eq_finite [of "scoreFields r"]
    by (simp add: extractBestScore_def extractBestScore_spec_def)
  have primary: "item_score r = JNumber (Finite (2 / 10))
       \<longrightarrow> extractBestScore r = (Finite (2 / 10), ''primaryScore'')"
    by (simp add: extractBestScore_def scoreFields_def)
  from scan names candidates none agree primary show ?thesis by blast
qed

text \<open>C10 at the record with primary score 0.2 and metadata score 0.9.\<close>

theorem extractBestScore_amended_witness:
  "item_score precedenceItem = JNumber (Finite (2 / 10))
   \<and> optionalField (item_metadata precedenceItem) ''score'' = JNumber (Finite (9 / 10))
   \<and> extractBestScore precedenceItem = (Finite (2 / 10), ''primaryScore'')"
proof -
  have s: "item_score precedenceItem = JNumber (Finite (2 / 10))"
    by (simp add: precedenceItem_def)
  have m: "optionalField (item_metadata precedenceItem) ''score'' = JNumber (Finite (9 / 10))"
    by (simp add: precedenceItem_def optionalField_def)
  show ?thesis
    using s m extractBestScore_amended [of precedenceItem] by simp
qed

text \<open>
  C10 as stated fails at a record whose primary score is infinite and whose relevance
  score is 0.5: the code returns the infinite primary score, the first finite number is
  the relevance score.
\<close>

theorem extractBestScore_finite_counterexample:
  "extractBestScore infiniteScoreItem = (PosInfinity, ''primaryScore'')
   \<and> extractBestScore_spec infiniteScoreItem = (Finite (1 / 2), ''relevanceScore'')
   \<and> extractBestScore infiniteScoreItem \<noteq> extractBestScore_spec infiniteScoreItem"
  by (simp add: extractBestScore_def extractBestScore_spec_def scoreFields_def
      infiniteScoreItem_def)


subsection \<open>Bucket filtering\<close>

text \<open>
  The test of the filter callback is containment up to letter case, a privileged caller
  gets the listing unchanged, and for every organization name that is not the name of
  an inherited property the result is the stable filter of the specification, the
  organization's own name being the only pattern when the table has no entry for it.
\<close>

lemma matchesPatterns_iff:
  "matchesPatterns patterns bucket \<longleftrightarrow>
     (\<exists>pattern \<in> set patterns. containsIgnoringCase (bucketDisplayName bucket) pattern)"
  by (simp add: matchesPatterns_def list_ex_iff toLowerCase_includes_iff)

lemma bucketPatternsFor_own:
  "organizationName \<notin> set objectPrototypeKeys
   \<Longrightarrow> bucketPatternsFor organizationName = Patterns (patternsOf organizationName)"
  by (simp add: bucketPatternsFor_def patternsOf_def split: option.splits)

lemma containsIgnoringCase_empty: "containsIgnoringCase name []"
proof -
  have "name = [] @ [] @ name \<and> toLowerCase [] = toLowerCase []" by simp
  then show ?thesis unfolding containsIgnoringCase_def by blast
qed

lemma keptBySpec_empty: "keptBySpec [] bucket"
  by (simp add: keptBySpec_def patternsOf_def orgToBucketMapping_def containsIgnoringCase_empty)

lemma filterBuckets_privileged: "filterBuckets True organizationName buckets = Inr buckets"
  by (simp add: filterBuckets_def)

lemma filterBuckets_spec:
  assumes "organizationName \<notin> set objectPrototypeKeys"
  shows "filterBuckets False (Some organizationName) buckets
           = Inr (filter (keptBySpec organizationName) buckets)"
proof (cases "organizationName = []")
  case True
  then show ?thesis by (simp add: filterBuckets_def keptBySpec_empty)
next
  case False
  have "matchesPatterns (patternsOf organizationName) = keptBySpec organizationName"
    by (rule ext) (simp add: matchesPatterns_iff keptBySpec_def)
  with False assms show ?thesis
    by (simp add: filterBuckets_def bucketPatternsFor_own)
qed

text \<open>
  The scenarios of the specification: the non-privileged identity of \<open>Austin Industries\<close>
  receives only \<open>Austin Industries Contracts\<close>, a privileged identity all three buckets.
\<close>

lemma filterBuckets_scenario:
  "filterBuckets False (Some ''Austin Industries'') scenarioBuckets
     = Inr [namedBucket 1 ''Austin Industries Contracts'']"
  by code_simp

lemma filterBuckets_scenario_privileged:
  "filterBuckets True (Some ''QIG'') scenarioBuckets = Inr scenarioBuckets"
  by (simp add: filterBuckets_def)

text \<open>
  C3 at the organization name \<open>constructor\<close>, which has no entry in the table. The
  lookup finds the property inherited from \<^verbatim>\<open>Object.prototype\<close> instead of falling back
  to the organization's own name, and the callback throws: the request fails, although
  the bucket \<open>Constructor Docs\<close> contains the name and is to be kept.
\<close>

theorem filterBuckets_inherited_property:
  "filterBuckets False (Some ''constructor'') [namedBucket 1 ''Constructor Docs'']
     = Inl ''bucketPatterns.some is not a function''
   \<and> keptBySpec ''constructor'' (namedBucket 1 ''Constructor Docs'')"
proof -
  have run: "filterBuckets False (Some ''constructor'') [namedBucket 1 ''Constructor Docs'']
     = Inl ''bucketPatterns.some is not a function''"
    by code_simp
  have "str_includes (toLowerCase ''Constructor Docs'') (toLowerCase ''constructor'')"
    by code_simp
  then have "containsIgnoringCase ''Constructor Docs'' ''constructor''"
    by (simp only: toLowerCase_includes_iff)
  then have "keptBySpec ''constructor'' (namedBucket 1 ''Constructor Docs'')"
    by (simp add: keptBySpec_def patternsOf_def orgToBucketMapping_def namedBucket_def
        bucketDisplayName_def)
  with run show ?thesis by simp
qed

text \<open>
  C4. For a non-privileged user whose organization name is absent or the empty string,
  no filtering takes place: the result is the whole listing, which is also what a
  privileged user gets.
\<close>

theorem filterBuckets_without_organization:
  assumes "organizationName = None \<or> organizationName = Some []"
  shows "filterBuckets False organizationName buckets = Inr buckets
       \<and> filterBuckets False organizationName buckets
           = filterBuckets True adminOrganizationName buckets"
  using assms by (auto simp: filterBuckets_def)

text \<open>C4 at the three buckets of the scenario, for an absent and for an empty organization name.\<close>

theorem filterBuckets_without_organization_witness:
  "filterBuckets False None scenarioBuckets = Inr scenarioBuckets
   \<and> filterBuckets False (Some []) scenarioBuckets = Inr scenarioBuckets
   \<and> filterBuckets False None scenarioBuckets = filterBuckets True (Some ''QIG'') scenarioBuckets"
  using filterBuckets_without_organization [of None scenarioBuckets "Some ''QIG''"]
    filterBuckets_without_organization [of "Some []" scenarioBuckets "Some ''QIG''"]
  by auto


subsection \<open>Content search\<close>

text \<open>
  C5, as the code has it. When the search call resolves with an envelope that lacks
  the results array, the search operation answers with a success holding no results
  and count 0, which is also its answer to an empty results array.
\<close>

theorem searchHandler_missing_results_amended:
  assumes "truthy (body_query b)" and "truthy (body_bucketId b)" and "groundxConfigured w"
    and "searchContent w (parseInt (orEmpty (body_bucketId b))) (orEmpty (body_query b)) (limitOf b)
           = SearchResolves r"
  shows "(searchResults r = None \<longrightarrow>
            fst (searchHandler w (Some b)) = Success \<lparr>payload_results = [], payload_count = 0\<rparr>)
       \<and> (searchResults r = Some [] \<longrightarrow>
            fst (searchHandler w (Some b)) = Success \<lparr>payload_results = [], payload_count = 0\<rparr>)"
  using assms by (simp add: searchHandler_def Let_def)

text \<open>C5 at a search that resolves with \<^verbatim>\<open>{ search: null }\<close>.\<close>

theorem searchHandler_missing_results_amended_witness:
  "fst (searchHandler servicesMissingResults (Some exampleSearchBody))
     = Success \<lparr>payload_results = [], payload_count = 0\<rparr>"
proof -
  have q: "truthy (body_query exampleSearchBody)" and i: "truthy (body_bucketId exampleSearchBody)"
    by (simp_all add: exampleSearchBody_def)
  have c: "groundxConfigured servicesMissingResults"
    by (simp add: servicesMissingResults_def)
  have s: "searchContent servicesMissingResults (parseInt (orEmpty (body_bucketId exampleSearchBody)))
             (orEmpty (body_query exampleSearchBody)) (limitOf exampleSearchBody)
           = SearchResolves (Some \<lparr>search = None\<rparr>)"
    by (simp add: servicesMissingResults_def)
  have n: "searchResults (Some \<lparr>search = None\<rparr>) = None"
    by (simp add: searchResults_def)
  show ?thesis
    using searchHandler_missing_results_amended [OF q i c s] n by simp
qed

text \<open>
  C5 as stated fails at that search: the envelope lacks the results array, the response
  is a success with zero results, and it is the response given to an empty results array.
\<close>

theorem searchHandler_missing_results_counterexample:
  "searchResults (Some \<lparr>search = None\<rparr>) = None
   \<and> fst (searchHandler servicesMissingResults (Some exampleSearchBody))
       = Success \<lparr>payload_results = [], payload_count = 0\<rparr>
   \<and> fst (searchHandler servicesMissingResults (Some exampleSearchBody))
       = fst (searchHandler servicesEmptyResults (Some exampleSearchBody))"
  by (simp add: searchHandler_def servicesMissingResults_def servicesEmptyResults_def
      exampleSearchBody_def searchResults_def Let_def)

subsection \<open>Retrieval-augmented generation\<close>

text \<open>
  Past its precondition checks the handler issues the search call and goes by its
  outcome; a body whose messages are \<^verbatim>\<open>null\<close> does not get that far.
\<close>

lemma ragHandler_search:
  assumes "reqUser \<noteq> None" and "truthy (body_query b)" and "truthy (body_bucketId b)"
    and "messagesOf b = Some messages" and "groundxConfigured w"
  shows "ragHandler w reqUser (Some b) =
     (case searchContent w (parseInt (orEmpty (body_bucketId b))) (orEmpty (body_query b)) (limitOf b) of
        SearchRejects msg \<Rightarrow>
          (Failure 500 (errorMessage msg),
           [SearchContent (parseInt (orEmpty (body_bucketId b))) (orEmpty (body_query b)) (limitOf b)])
      | SearchResolves searchResponse \<Rightarrow>
          (case searchResults searchResponse of
             None \<Rightarrow>
               (Failure 500 ''No search results from GroundX'',
                [SearchContent (parseInt (orEmpty (body_bucketId b))) (orEmpty (body_query b)) (limitOf b)])
           | Some rs \<Rightarrow>
               (fst (ragGenerate w b messages (map ragSourceOf rs)),
                SearchContent (parseInt (orEmpty (body_bucketId b))) (orEmpty (body_query b)) (limitOf b)
                  # snd (ragGenerate w b messages (map ragSourceOf rs)))))"
  using assms
  by (simp add: ragHandler_def Let_def split: searchOutcome.splits option.splits prod.splits)

lemma ragHandler_null_messages:
  "ragHandler servicesEmptyResults (Some exampleReqUser) (Some nullMessagesRagBody)
     = (Failure 500 nullLengthError, [])"
  by (simp add: ragHandler_def nullMessagesRagBody_def messagesOf_def)

text \<open>
  C6. For an authenticated request with a query, a bucket id and messages that are not
  \<^verbatim>\<open>null\<close>, whose search call resolves: an empty results array leads to the generation
  phase and, when the request is built and the completion resolves, to a successful
  answer with no sources and count 0; an envelope that lacks the results array fails
  the request with status 500 and the retrieval error \<open>No search results from GroundX\<close>,
  the completion service not being called.
\<close>

theorem ragHandler_empty_and_missing_results:
  assumes "reqUser \<noteq> None" and "truthy (body_query b)" and "truthy (body_bucketId b)"
    and "messagesOf b = Some messages" and "groundxConfigured w"
    and "searchContent w (parseInt (orEmpty (body_bucketId b))) (orEmpty (body_query b)) (limitOf b)
           = SearchResolves r"
  shows "(searchResults r = Some [] \<and> requestFor b messages [] = Some request
            \<and> openaiConfigured w
            \<and> createCompletion w request (temperatureOf b) = CompletionResolves content
          \<longrightarrow> (\<exists>answer. fst (ragHandler w reqUser (Some b)) = Success answer
                 \<and> rag_sources answer = [] \<and> rag_count answer = 0)
              \<and> snd (ragHandler w reqUser (Some b))
                  = [SearchContent (parseInt (orEmpty (body_bucketId b))) (orEmpty (body_query b))
                       (limitOf b),
                     ChatCompletion request (temperatureOf b)])
       \<and> (searchResults r = None
          \<longrightarrow> ragHandler w reqUser (Some b)
                = (Failure 500 ''No search results from GroundX'',
                   [SearchContent (parseInt (orEmpty (body_bucketId b))) (orEmpty (body_query b))
                      (limitOf b)]))"
  using assms by (simp add: ragHandler_search ragGenerate_def)

text \<open>C6 at a search resolving with an empty results array, and at one resolving with \<^verbatim>\<open>{ search: null }\<close>.\<close>

theorem ragHandler_empty_and_missing_results_witness:
  "fst (ragHandler servicesEmptyResults (Some exampleReqUser) (Some exampleRagBody))
     = Success \<lparr>rag_query = ''q'', rag_response = ''answer'', rag_thoughts = None,
                rag_count = 0, rag_sources = []\<rparr>
   \<and> fst (ragHandler servicesMissingResults (Some exampleReqUser) (Some exampleRagBody))
     = Failure 500 ''No search results from GroundX''"
proof -
  have u: "Some exampleReqUser \<noteq> None" by simp
  have q: "truthy (body_query exampleRagBody)" and i: "truthy (body_bucketId exampleRagBody)"
    and m: "messagesOf exampleRagBody = Some []"
    by (simp_all add: exampleRagBody_def messagesOf_def)
  obtain request where rq: "requestFor exampleRagBody [] [] = Some request"
    by (simp add: requestFor_def openaiMessages_def historyOf_def)
  have ce: "groundxConfigured servicesEmptyResults"
    and oe: "openaiConfigured servicesEmptyResults"
    and le: "createCompletion servicesEmptyResults request (temperatureOf exampleRagBody)
               = CompletionResolves (Some ''answer'')"
    and se: "searchContent servicesEmptyResults (parseInt (orEmpty (body_bucketId exampleRagBody)))
             (orEmpty (body_query exampleRagBody)) (limitOf exampleRagBody)
           = SearchResolves (Some \<lparr>search = Some \<lparr>results = Some []\<rparr>\<rparr>)"
    by (simp_all add: servicesEmptyResults_def)
  have cm: "groundxConfigured servicesMissingResults"
    and sm: "searchContent servicesMissingResults (parseInt (orEmpty (body_bucketId exampleRagBody)))
             (orEmpty (body_query exampleRagBody)) (limitOf exampleRagBody)
           = SearchResolves (Some \<lparr>search = None\<rparr>)"
    by (simp_all add: servicesMissingResults_def)
  have re: "searchResults (Some \<lparr>search = Some \<lparr>results = Some []\<rparr>\<rparr>) = Some []"
    and rm: "searchResults (Some \<lparr>search = None\<rparr>) = None"
    by (simp_all add: searchResults_def)
  have run: "fst (ragHandler servicesEmptyResults (Some exampleReqUser) (Some exampleRagBody))
     = Success \<lparr>rag_query = ''q'', rag_response = ''answer'', rag_thoughts = None,
                rag_count = 0, rag_sources = []\<rparr>"
    by (simp add: ragHandler_def ragGenerate_def servicesEmptyResults_def exampleRagBody_def
        searchResults_def messagesOf_def requestFor_def openaiMessages_def historyOf_def
        conversationContextOf_def Let_def)
  from ragHandler_empty_and_missing_results [OF u q i m cm sm, of request "Some ''answer''"] rm
  have missing: "fst (ragHandler servicesMissingResults (Some exampleReqUser) (Some exampleRagBody))
     = Failure 500 ''No search results from GroundX''"
    by simp
  from ragHandler_empty_and_missing_results [OF u q i m ce se, of request "Some ''answer''"]
    re rq oe le
  have "\<exists>answer. fst (ragHandler servicesEmptyResults (Some exampleReqUser) (Some exampleRagBody))
           = Success answer \<and> rag_sources answer = [] \<and> rag_count answer = 0"
    by blast
  with run missing show ?thesis by simp
qed

text \<open>
  C7, as the code has it. An authenticated request whose query or bucket id is missing
  or empty fails with no call issued, with status 400 when its messages are not
  \<^verbatim>\<open>null\<close>; a call is issued only when both are present; and when both are present
  (the messages not \<^verbatim>\<open>null\<close>, the search client available) the first call is the
  content search with \<^verbatim>\<open>parseInt(bucketId)\<close> as the collection identifier, whatever
  that conversion gives.
\<close>

theorem ragHandler_preconditions_amended:
  assumes "reqUser \<noteq> None"
  shows "(\<not> truthy (body_query b) \<or> \<not> truthy (body_bucketId b)
          \<longrightarrow> snd (ragHandler w reqUser (Some b)) = []
              \<and> (\<exists>status message. fst (ragHandler w reqUser (Some b)) = Failure status message)
              \<and> (body_messages b \<noteq> MessagesNull
                  \<longrightarrow> fst (ragHandler w reqUser (Some b))
                        = Failure 400 ''Query and bucketId are required''))
       \<and> (snd (ragHandler w reqUser (Some b)) \<noteq> []
          \<longrightarrow> truthy (body_query b) \<and> truthy (body_bucketId b) \<and> groundxConfigured w
              \<and> body_messages b \<noteq> MessagesNull)
       \<and> (truthy (body_query b) \<and> truthy (body_bucketId b) \<and> groundxConfigured w
            \<and> body_messages b \<noteq> MessagesNull
          \<longrightarrow> (\<exists>later. snd (ragHandler w reqUser (Some b))
                 = SearchContent (parseInt (orEmpty (body_bucketId b))) (orEmpty (body_query b))
                     (limitOf b) # later))"
proof -
  have null: "messagesOf b = None \<longleftrightarrow> body_messages b = MessagesNull"
    by (simp add: messagesOf_def split: messagesField.splits)
  have a: "\<not> truthy (body_query b) \<or> \<not> truthy (body_bucketId b)
          \<longrightarrow> snd (ragHandler w reqUser (Some b)) = []
              \<and> (\<exists>status message. fst (ragHandler w reqUser (Some b)) = Failure status message)
              \<and> (body_messages b \<noteq> MessagesNull
                  \<longrightarrow> fst (ragHandler w reqUser (Some b))
                        = Failure 400 ''Query and bucketId are required'')"
    using assms null by (cases "messagesOf b") (auto simp: ragHandler_def)
  have b: "snd (ragHandler w reqUser (Some b)) \<noteq> []
          \<longrightarrow> truthy (body_query b) \<and> truthy (body_bucketId b) \<and> groundxConfigured w
              \<and> body_messages b \<noteq> MessagesNull"
    using assms null by (cases "messagesOf b") (auto simp: ragHandler_def split: if_splits)
  have c: "truthy (body_query b) \<and> truthy (body_bucketId b) \<and> groundxConfigured w
            \<and> body_messages b \<noteq> MessagesNull
          \<longrightarrow> (\<exists>later. snd (ragHandler w reqUser (Some b))
                 = SearchContent (parseInt (orEmpty (body_bucketId b))) (orEmpty (body_query b))
                     (limitOf b) # later)"
  proof
    assume h: "truthy (body_query b) \<and> truthy (body_bucketId b) \<and> groundxConfigured w
            \<and> body_messages b \<noteq> MessagesNull"
    with null obtain messages where "messagesOf b = Some messages" by auto
    with h assms show "\<exists>later. snd (ragHandler w reqUser (Some b))
                 = SearchContent (parseInt (orEmpty (body_bucketId b))) (orEmpty (body_query b))
                     (limitOf b) # later"
      by (auto simp: ragHandler_search split: searchOutcome.splits option.splits)
  qed
  from a b c show ?thesis by blast
qed

text \<open>C7 at an empty query, which is refused with no call, and at the bucket id \<open>123\<close>, which is searched.\<close>

theorem ragHandler_preconditions_amended_witness:
  "ragHandler servicesEmptyResults (Some exampleReqUser) (Some emptyQueryRagBody)
     = (Failure 400 ''Query and bucketId are required'', [])
   \<and> hd (snd (ragHandler servicesEmptyResults (Some exampleReqUser) (Some exampleRagBody)))
     = SearchContent (Finite 123) ''q'' 10"
proof -
  have u: "Some exampleReqUser \<noteq> None" by simp
  have e: "\<not> truthy (body_query emptyQueryRagBody)"
    and en: "body_messages emptyQueryRagBody \<noteq> MessagesNull"
    by (simp_all add: emptyQueryRagBody_def)
  have q: "truthy (body_query exampleRagBody)" and i: "truthy (body_bucketId exampleRagBody)"
    and n: "body_messages exampleRagBody \<noteq> MessagesNull"
    by (simp_all add: exampleRagBody_def)
  have c: "groundxConfigured servicesEmptyResults"
    by (simp add: servicesEmptyResults_def)
  have p: "SearchContent (parseInt (orEmpty (body_bucketId exampleRagBody)))
             (orEmpty (body_query exampleRagBody)) (limitOf exampleRagBody)
           = SearchContent (Finite 123) ''q'' 10"
    by (simp add: exampleRagBody_def parseInt_def isWhiteSpace_def digitValue_def
        digitsValue_def numberOfNat_def limitOf_def)
  from ragHandler_preconditions_amended [OF u, of emptyQueryRagBody servicesEmptyResults] e en
  have "snd (ragHandler servicesEmptyResults (Some exampleReqUser) (Some emptyQueryRagBody)) = []
      \<and> fst (ragHandler servicesEmptyResults (Some exampleReqUser) (Some emptyQueryRagBody))
          = Failure 400 ''Query and bucketId are required''"
    by blast
  then have refused: "ragHandler servicesEmptyResults (Some exampleReqUser) (Some emptyQueryRagBody)
     = (Failure 400 ''Query and bucketId are required'', [])"
    by (simp add: prod_eq_iff)
  from ragHandler_preconditions_amended [OF u, of exampleRagBody servicesEmptyResults] q i c n
  obtain later where
    "snd (ragHandler servicesEmptyResults (Some exampleReqUser) (Some exampleRagBody))
       = SearchContent (parseInt (orEmpty (body_bucketId exampleRagBody)))
           (orEmpty (body_query exampleRagBody)) (limitOf exampleRagBody) # later"
    by blast
  then have "hd (snd (ragHandler servicesEmptyResults (Some exampleReqUser) (Some exampleRagBody)))
     = SearchContent (Finite 123) ''q'' 10"
    by (simp only: p list.sel)
  with refused show ?thesis by simp
qed

text \<open>
  C7 as stated fails at the bucket id \<open>abc\<close>: it is not resolvable to an integer
  (the conversion gives \<open>NaN\<close>), yet the request is not refused: the search call is
  issued, with \<open>NaN\<close> as the collection identifier, and the request succeeds.
\<close>

theorem ragHandler_preconditions_counterexample:
  "parseInt (orEmpty (body_bucketId nonIntegerRagBody)) = NaN
   \<and> fst (ragHandler servicesEmptyResults (Some exampleReqUser) (Some nonIntegerRagBody))
     = Success \<lparr>rag_query = ''q'', rag_response = ''answer'', rag_thoughts = None,
                rag_count = 0, rag_sources = []\<rparr>
   \<and> hd (snd (ragHandler servicesEmptyResults (Some exampleReqUser) (Some nonIntegerRagBody)))
     = SearchContent NaN ''q'' 10"
  by (simp add: ragHandler_def ragGenerate_def servicesEmptyResults_def nonIntegerRagBody_def
      searchResults_def Let_def parseInt_def isWhiteSpace_def digitValue_def limitOf_def
      messagesOf_def requestFor_def openaiMessages_def historyOf_def conversationContextOf_def)

end
